theory Spec2Isabelle
  imports Main
begin

section \<open>Data model of auth.go\<close>

text \<open>
  A Go slice is either nil or a sequence of elements. The source tests slices against nil
  before ranging over them, so nil is kept apart from the empty slice: \<open>None\<close> is nil.
  \<open>range_items\<close> gives the elements a \<^verbatim>\<open>for _, x := range s\<close> visits, which
  are none for a nil slice.
\<close>

type_synonym 'a slice = "'a list option"

definition range_items :: "'a slice \<Rightarrow> 'a list" where
  "range_items s = (case s of None \<Rightarrow> [] | Some xs \<Rightarrow> xs)"

text \<open>
  \<^verbatim>\<open>type User struct\<close>. The type parameter \<open>'h\<close> is the credential type
  \<^verbatim>\<open>passwordhash.PasswordHash\<close> of the external hashing package; a nil pointer
  field is \<open>None\<close>.
\<close>

record 'h User =
  Name :: string
  PasswordHash :: "'h option"
  Channels :: "string slice"
  Password :: "string option"

text \<open>
  The two functions of \<^verbatim>\<open>github.com/dchest/passwordhash\<close> that auth.go calls.
  The package is an external collaborator, so both are taken as parameters.
\<close>

record 'h passwordhash =
  New :: "string \<Rightarrow> 'h"
  EqualToPassword :: "'h \<Rightarrow> string \<Rightarrow> bool"

text \<open>
  Error values. \<^verbatim>\<open>HTTPError{status, message}\<close> is the only error auth.go builds
  itself; the other two are what the document store reports. A message built with
  \<^verbatim>\<open>fmt.Sprintf\<close> is kept as its format string and its argument (\<open>Quoted\<close> for a
  \<^verbatim>\<open>%q\<close> string, \<open>Values\<close> for a \<^verbatim>\<open>%v\<close> string slice), since the rendering is
  fmt's. A Go \<^verbatim>\<open>error\<close> result is an \<open>error option\<close>, nil being \<open>None\<close>.
\<close>

datatype fmt_arg = Quoted string | Values "string list"

datatype message = Literal string | Sprintf string fmt_arg

datatype error = HTTPError nat message | NotFoundError | StoreError string

text \<open>The status codes of net/http that auth.go uses.\<close>

definition StatusBadRequest :: nat where
  "StatusBadRequest = 400"

definition StatusUnauthorized :: nat where
  "StatusUnauthorized = 401"

definition StatusForbidden :: nat where
  "StatusForbidden = 403"

text \<open>
  A run-time panic. A \<^verbatim>\<open>*User\<close> is a \<open>User option\<close>; reading a field through a
  nil pointer panics, so a function that may do so returns \<open>panic + 'a\<close>.
\<close>

datatype panic = NilPointerDereference

text \<open>
  Modelled from the spec: the document store behind \<^verbatim>\<open>couchbase.Bucket\<close> (package
  go-couchbase, not part of the repository's sources). The spec gives its contract as
  \<^verbatim>\<open>get(key) -> bytes|NotFound|Error\<close> and \<^verbatim>\<open>set(key, bytes) -> ok|Error\<close>. The store
  holds the saved records by key; \<open>fault\<close>, when set, is a store-level failure that every
  call reports. \<open>Bucket_Get\<close> returns the pointer that \<^verbatim>\<open>Get(key, &user)\<close> leaves in
  \<^verbatim>\<open>user\<close> (nil unless a record was read) together with the error.
\<close>

record 'h Bucket =
  docs :: "string \<rightharpoonup> 'h User"
  fault :: "string option"

definition Bucket_Get :: "'h Bucket \<Rightarrow> string \<Rightarrow> 'h User option \<times> error option" where
  "Bucket_Get b key =
     (case fault b of
        Some msg \<Rightarrow> (None, Some (StoreError msg))
      | None \<Rightarrow>
          (case docs b key of
             None \<Rightarrow> (None, Some NotFoundError)
           | Some u \<Rightarrow> (Some u, None)))"

definition Bucket_Set :: "'h Bucket \<Rightarrow> string \<Rightarrow> 'h User \<Rightarrow> 'h Bucket \<times> error option" where
  "Bucket_Set b key u =
     (case fault b of
        Some msg \<Rightarrow> (b, Some (StoreError msg))
      | None \<Rightarrow> (b\<lparr>docs := (docs b)(key \<mapsto> u)\<rparr>, None))"

text \<open>\<^verbatim>\<open>type Authenticator struct { bucket *couchbase.Bucket }\<close>\<close>

record 'h Authenticator =
  bucket :: "'h Bucket"

definition NewAuthenticator :: "'h Bucket \<Rightarrow> 'h Authenticator" where
  "NewAuthenticator b = \<lparr>bucket = b\<rparr>"

definition docIDForUser :: "string \<Rightarrow> string" where
  "docIDForUser username = ''user:'' @ username"

section \<open>The User object\<close>

text \<open>
  \<^verbatim>\<open>regexp.MatchString(`^\w*$`, name)\<close>. In Go's regexp syntax \<^verbatim>\<open>\w\<close> is the
  ASCII class \<^verbatim>\<open>[0-9A-Za-z_]\<close>, and without the m flag \<^verbatim>\<open>^\<close> and \<^verbatim>\<open>$\<close> match
  only at the two ends of the text: the matcher consumes word characters up to the end.
\<close>

definition isWordChar :: "char \<Rightarrow> bool" where
  "isWordChar c =
     (let n = (of_char c :: nat)
      in (48 \<le> n \<and> n \<le> 57) \<or> (65 \<le> n \<and> n \<le> 90) \<or> (97 \<le> n \<and> n \<le> 122) \<or> n = 95)"

fun matchWordStar :: "string \<Rightarrow> bool" where
  "matchWordStar [] = True"
| "matchWordStar (c # cs) = (if isWordChar c then matchWordStar cs else False)"

text \<open>
  The methods below that read or write the fields of their receiver at once (Validate,
  Authenticate, SetPassword) take a \<open>User\<close>: every call in auth.go passes a pointer it has
  allocated or has compared with nil. A method that mutates its receiver returns the
  updated record.
\<close>

definition SetPassword :: "'h passwordhash \<Rightarrow> 'h User \<Rightarrow> string \<Rightarrow> 'h User" where
  "SetPassword ph user password =
     (if password = '''' then user\<lparr>PasswordHash := None\<rparr>
      else user\<lparr>PasswordHash := Some (New ph password)\<rparr>)"

definition Validate :: "'h User \<Rightarrow> error option" where
  "Validate user =
     (if \<not> matchWordStar (Name user) then
        Some (HTTPError StatusBadRequest (Sprintf ''Invalid username %q'' (Quoted (Name user))))
      else if (Name user = '''') \<noteq> (PasswordHash user = None) then
        Some (HTTPError StatusBadRequest (Literal ''Invalid password''))
      else None)"

definition Authenticate :: "'h passwordhash \<Rightarrow> 'h User \<Rightarrow> string \<Rightarrow> bool" where
  "Authenticate ph user password =
     (case PasswordHash user of
        None \<Rightarrow> (if password \<noteq> '''' then False else True)
      | Some h \<Rightarrow> (if \<not> EqualToPassword ph h password then False else True))"

definition NewUser ::
  "'h passwordhash \<Rightarrow> string \<Rightarrow> string \<Rightarrow> string slice \<Rightarrow> 'h User option \<times> error option" where
  "NewUser ph username password channels =
     (let user = SetPassword ph
            \<lparr>Name = username, PasswordHash = None, Channels = channels, Password = None\<rparr> password
      in case Validate user of
           Some err \<Rightarrow> (None, Some err)
         | None \<Rightarrow> (Some user, None))"

definition unauthError :: "'h User option \<Rightarrow> message \<Rightarrow> panic + error" where
  "unauthError user msg =
     (case user of
        None \<Rightarrow> Inl NilPointerDereference
      | Some u \<Rightarrow>
          if Name u = '''' then Inr (HTTPError StatusUnauthorized (Literal ''login required''))
          else Inr (HTTPError StatusForbidden msg))"

section \<open>Channel authorization\<close>

fun stringListContains_loop :: "string list \<Rightarrow> string \<Rightarrow> bool" where
  "stringListContains_loop [] str = False"
| "stringListContains_loop (item # rest) str =
     (if item = str then True else stringListContains_loop rest str)"

definition stringListContains :: "string slice \<Rightarrow> string \<Rightarrow> bool" where
  "stringListContains list str =
     (case list of None \<Rightarrow> False | Some items \<Rightarrow> stringListContains_loop items str)"

definition CanSeeChannel :: "'h User option \<Rightarrow> string \<Rightarrow> bool" where
  "CanSeeChannel user channel =
     (case user of
        None \<Rightarrow> True
      | Some u \<Rightarrow>
          channel = ''*'' \<or> stringListContains (Channels u) channel \<or>
          stringListContains (Channels u) ''*'')"

text \<open>The loop of CanSeeAllChannels: \<open>False\<close> when it returns false from inside.\<close>

fun CanSeeAllChannels_loop :: "'h User option \<Rightarrow> string list \<Rightarrow> bool" where
  "CanSeeAllChannels_loop user [] = True"
| "CanSeeAllChannels_loop user (channel # rest) =
     (if \<not> CanSeeChannel user channel then False else CanSeeAllChannels_loop user rest)"

definition CanSeeAllChannels :: "'h User option \<Rightarrow> string slice \<Rightarrow> bool" where
  "CanSeeAllChannels user channels =
     (case channels of None \<Rightarrow> True | Some cs \<Rightarrow> CanSeeAllChannels_loop user cs)"

text \<open>The loop of CanSeeAnyChannels: \<open>True\<close> when it returns true from inside.\<close>

fun CanSeeAnyChannels_loop :: "'h User option \<Rightarrow> string list \<Rightarrow> bool" where
  "CanSeeAnyChannels_loop user [] = False"
| "CanSeeAnyChannels_loop user (channel # rest) =
     (if CanSeeChannel user channel then True else CanSeeAnyChannels_loop user rest)"

text \<open>
  After the loop the function reads \<^verbatim>\<open>user.Channels\<close> with no nil check, which
  panics for a nil user.
\<close>

definition CanSeeAnyChannels :: "'h User option \<Rightarrow> string slice \<Rightarrow> panic + bool" where
  "CanSeeAnyChannels user channels =
     (if (case channels of None \<Rightarrow> False | Some cs \<Rightarrow> CanSeeAnyChannels_loop user cs)
      then Inr True
      else (case user of
              None \<Rightarrow> Inl NilPointerDereference
            | Some u \<Rightarrow> Inr (stringListContains (Channels u) ''*'')))"

text \<open>
  The loop of AuthorizeAllChannels, with the local \<^verbatim>\<open>forbidden\<close> as accumulator: it
  starts nil and is allocated at the first forbidden channel.
\<close>

fun AuthorizeAllChannels_loop ::
  "'h User option \<Rightarrow> string list \<Rightarrow> string slice \<Rightarrow> string slice" where
  "AuthorizeAllChannels_loop user [] forbidden = forbidden"
| "AuthorizeAllChannels_loop user (channel # rest) forbidden =
     (if \<not> CanSeeChannel user channel then
        AuthorizeAllChannels_loop user rest
          (Some ((case forbidden of None \<Rightarrow> [] | Some f \<Rightarrow> f) @ [channel]))
      else AuthorizeAllChannels_loop user rest forbidden)"

definition AuthorizeAllChannels :: "'h User option \<Rightarrow> string slice \<Rightarrow> panic + error option" where
  "AuthorizeAllChannels user channels =
     (case AuthorizeAllChannels_loop user (range_items channels) None of
        Some forbidden \<Rightarrow>
          map_sum id Some
            (unauthError user
               (Sprintf ''You are not allowed to see channels %v'' (Values forbidden)))
      | None \<Rightarrow> Inr None)"

definition AuthorizeAnyChannels :: "'h User option \<Rightarrow> string slice \<Rightarrow> panic + error option" where
  "AuthorizeAnyChannels user channels =
     (case CanSeeAnyChannels user channels of
        Inl p \<Rightarrow> Inl p
      | Inr ok \<Rightarrow>
          if \<not> ok then map_sum id Some (unauthError user (Literal ''You are not allowed to see this''))
          else Inr None)"

text \<open>
  Modelled from the spec: \<^verbatim>\<open>ChannelMap\<close> is declared elsewhere in the repository. The
  spec describes it as a mapping from channel name to an optional marker, the absent
  (nil) marker meaning current membership. A key that is not in the map is \<open>None\<close>, a key
  with a nil marker is \<open>Some None\<close>.
\<close>

type_synonym 'r ChannelMap = "string \<rightharpoonup> 'r option"

text \<open>The loop of AuthorizeAnyDocChannels: \<open>True\<close> when it returns nil from inside.\<close>

fun AuthorizeAnyDocChannels_loop :: "string list \<Rightarrow> 'r ChannelMap \<Rightarrow> bool" where
  "AuthorizeAnyDocChannels_loop [] channels = False"
| "AuthorizeAnyDocChannels_loop (channel # rest) channels =
     (if channel = ''*'' then True
      else (case channels channel of
              Some None \<Rightarrow> True
            | _ \<Rightarrow> AuthorizeAnyDocChannels_loop rest channels))"

definition AuthorizeAnyDocChannels ::
  "'h User option \<Rightarrow> 'r ChannelMap \<Rightarrow> panic + error option" where
  "AuthorizeAnyDocChannels user channels =
     (case user of
        None \<Rightarrow> Inr None
      | Some u \<Rightarrow>
          if (case Channels u of None \<Rightarrow> False | Some cs \<Rightarrow> AuthorizeAnyDocChannels_loop cs channels)
          then Inr None
          else map_sum id Some (unauthError user (Literal ''You are not allowed to see this'')))"

section \<open>The Authenticator\<close>

definition GetUser :: "'h Authenticator \<Rightarrow> string \<Rightarrow> 'h User option \<times> error option" where
  "GetUser auth username =
     (case Bucket_Get (bucket auth) (docIDForUser username) of
        (user, err) \<Rightarrow>
          if user = None \<and> username = '''' then
            (Some \<lparr>Name = username, PasswordHash = None, Channels = Some [''*''], Password = None\<rparr>,
             None)
          else (user, err))"

text \<open>
  SaveUser writes through its \<^verbatim>\<open>*User\<close> argument before it validates, so the model
  returns the store after the call, the caller's record after the call, and the error.
\<close>

definition SaveUser ::
  "'h passwordhash \<Rightarrow> 'h Authenticator \<Rightarrow> 'h User \<Rightarrow> 'h Authenticator \<times> 'h User \<times> error option" where
  "SaveUser ph auth user0 =
     (let user = (case Password user0 of
                    Some p \<Rightarrow> (SetPassword ph user0 p)\<lparr>Password := None\<rparr>
                  | None \<Rightarrow> user0)
      in case Validate user of
           Some err \<Rightarrow> (auth, user, Some err)
         | None \<Rightarrow>
             (case Bucket_Set (bucket auth) (docIDForUser (Name user)) user of
                (b, err) \<Rightarrow> (auth\<lparr>bucket := b\<rparr>, user, err)))"

definition AuthenticateUser ::
  "'h passwordhash \<Rightarrow> 'h Authenticator \<Rightarrow> string \<Rightarrow> string \<Rightarrow> 'h User option" where
  "AuthenticateUser ph auth username password =
     (case GetUser auth username of
        (user, _) \<Rightarrow>
          (case user of
             None \<Rightarrow> None
           | Some u \<Rightarrow> if \<not> Authenticate ph u password then None else user))"

section \<open>Definitions used to state the claims\<close>

text \<open>
  The name pattern in the spec's words: "empty string, or one-or-more word characters
  (letters/digits/underscore only)". It is compared below with \<open>matchWordStar\<close>, the
  matcher taken from the source's regular expression.
\<close>

definition isLetter :: "char \<Rightarrow> bool" where
  "isLetter c = (c \<in> set ''abcdefghijklmnopqrstuvwxyzABCDEFGHIJKLMNOPQRSTUVWXYZ'')"

definition isDigit :: "char \<Rightarrow> bool" where
  "isDigit c = (c \<in> set ''0123456789'')"

definition namePattern :: "string \<Rightarrow> bool" where
  "namePattern s =
     (s = '''' \<or>
      (1 \<le> length s \<and> (\<forall>c \<in> set s. isLetter c \<or> isDigit c \<or> c = CHR ''_'')))"

text \<open>
  An error names a list of channels when its message was formatted from exactly that
  list.
\<close>

definition errorNames :: "error \<Rightarrow> string list \<Rightarrow> bool" where
  "errorNames e cs =
     (case e of
        HTTPError _ (Sprintf _ (Values vs)) \<Rightarrow> vs = cs
      | _ \<Rightarrow> False)"

text \<open>
  The channels of a request that CanSeeChannel refuses, in request order.
\<close>

definition forbiddenChannels :: "'h User option \<Rightarrow> string slice \<Rightarrow> string list" where
  "forbiddenChannels user channels =
     filter (\<lambda>c. \<not> CanSeeChannel user c) (range_items channels)"

text \<open>
  A hashing package that meets the black-box guarantee (verification of a credential
  accepts exactly the password it was made from), for evaluating the functions on
  concrete inputs: the credential is the password itself.
\<close>

definition testHash :: "string passwordhash" where
  "testHash = \<lparr>New = (\<lambda>p. p), EqualToPassword = (\<lambda>h q. h = q)\<rparr>"

text \<open>
  The guest user that GetUser synthesizes for the empty name: wildcard access and no
  credential.
\<close>

definition guestUser :: "'h User" where
  "guestUser = \<lparr>Name = '''', PasswordHash = None, Channels = Some [''*''], Password = None\<rparr>"

text \<open>
  Records and stores for evaluating the store operations on concrete inputs: a saved
  user "bob" whose credential was made from "secret" by \<open>testHash\<close>, a store holding
  that record, an empty store, and a store that fails every call.
\<close>

definition bobUser :: "string User" where
  "bobUser =
     \<lparr>Name = ''bob'', PasswordHash = Some ''secret'', Channels = Some [''a''], Password = None\<rparr>"

definition bobStore :: "string Authenticator" where
  "bobStore = \<lparr>bucket = \<lparr>docs = [''user:bob'' \<mapsto> bobUser], fault = None\<rparr>\<rparr>"

definition emptyStore :: "string Authenticator" where
  "emptyStore = \<lparr>bucket = \<lparr>docs = Map.empty, fault = None\<rparr>\<rparr>"

definition failingStore :: "string Authenticator" where
  "failingStore = \<lparr>bucket = \<lparr>docs = [''user:bob'' \<mapsto> bobUser], fault = Some ''timeout''\<rparr>\<rparr>"

definition chan1Guest :: "string User" where
  "chan1Guest =
     \<lparr>Name = '''', PasswordHash = None, Channels = Some [''chan1''], Password = None\<rparr>"

definition badNameUser :: "string User" where
  "badNameUser =
     \<lparr>Name = ''bad name'', PasswordHash = None, Channels = Some [''a''], Password = Some ''pw''\<rparr>"

section \<open>Basic facts\<close>

lemma stringListContains_loop_set: "stringListContains_loop items str = (str \<in> set items)"
  by (induction items) auto

lemma stringListContains_set: "stringListContains list str = (str \<in> set (range_items list))"
  by (simp add: stringListContains_def range_items_def stringListContains_loop_set
      split: option.split)

lemma CanSeeAnyChannels_loop_ex:
  "CanSeeAnyChannels_loop user cs = (\<exists>c \<in> set cs. CanSeeChannel user c)"
  by (induction cs) auto

lemma CanSeeAnyChannels_loop_nil_user:
  "CanSeeAnyChannels_loop None cs = (cs \<noteq> [])"
  by (cases cs) (simp_all add: CanSeeChannel_def)

lemma AuthorizeAnyDocChannels_loop_ex:
  "AuthorizeAnyDocChannels_loop cs m = (\<exists>c \<in> set cs. c = ''*'' \<or> m c = Some None)"
  by (induction cs) (auto split: option.splits)

section \<open>Single-channel visibility\<close>

text \<open>
  Claim C1. CanSeeChannel returns true exactly when the user is absent (nil), or the
  requested channel is the wildcard "*", or the requested channel is one of the user's
  channels, or the wildcard is one of the user's channels; for a concrete user and any
  other channel it returns false.
\<close>

theorem CanSeeChannel_iff:
  "CanSeeChannel user channel =
     (case user of
        None \<Rightarrow> True
      | Some u \<Rightarrow>
          channel = ''*'' \<or> channel \<in> set (range_items (Channels u)) \<or>
          ''*'' \<in> set (range_items (Channels u)))"
  by (simp add: CanSeeChannel_def stringListContains_set split: option.split)

text \<open>
  The spec's example: a user holding "a" and "*" sees "z"; a user holding only "a" does
  not.
\<close>

theorem CanSeeChannel_iff_witness:
  "CanSeeChannel
     (Some \<lparr>Name = ''u'', PasswordHash = (None :: unit option),
            Channels = Some [''a'', ''*''], Password = None\<rparr>) ''z''
   \<and> \<not> CanSeeChannel
     (Some \<lparr>Name = ''u'', PasswordHash = (None :: unit option),
            Channels = Some [''a''], Password = None\<rparr>) ''z''"
  using
    CanSeeChannel_iff [of "Some \<lparr>Name = ''u'', PasswordHash = (None :: unit option),
      Channels = Some [''a'', ''*''], Password = None\<rparr>" "''z''"]
    CanSeeChannel_iff [of "Some \<lparr>Name = ''u'', PasswordHash = (None :: unit option),
      Channels = Some [''a''], Password = None\<rparr>" "''z''"]
  by (simp add: range_items_def)

section \<open>Any-of visibility\<close>

text \<open>
  Claim C4. For every concrete (non-nil) user, CanSeeAnyChannels returns true when the
  channel list is non-empty and some element of it satisfies CanSeeChannel; in every
  other case (the list is nil or empty, or no element matched) it returns true exactly
  when the wildcard "*" is one of the user's channels.
\<close>

theorem CanSeeAnyChannels_concrete:
  "CanSeeAnyChannels (Some u) channels =
     Inr ((\<exists>c \<in> set (range_items channels). CanSeeChannel (Some u) c) \<or>
          ''*'' \<in> set (range_items (Channels u)))"
  by (auto simp add: CanSeeAnyChannels_def CanSeeAnyChannels_loop_ex stringListContains_set
      range_items_def split: option.split)

text \<open>
  A wildcard holder passes against the unlisted channel "z" and against a nil list; a
  user holding only "a" fails against a nil list and against "z".
\<close>

theorem CanSeeAnyChannels_concrete_witness:
  "CanSeeAnyChannels
     (Some \<lparr>Name = ''u'', PasswordHash = (None :: unit option),
            Channels = Some [''*''], Password = None\<rparr>) (Some [''z'']) = Inr True
   \<and> CanSeeAnyChannels
     (Some \<lparr>Name = ''u'', PasswordHash = (None :: unit option),
            Channels = Some [''*''], Password = None\<rparr>) None = Inr True
   \<and> CanSeeAnyChannels
     (Some \<lparr>Name = ''u'', PasswordHash = (None :: unit option),
            Channels = Some [''a''], Password = None\<rparr>) None = Inr False
   \<and> CanSeeAnyChannels
     (Some \<lparr>Name = ''u'', PasswordHash = (None :: unit option),
            Channels = Some [''a''], Password = None\<rparr>) (Some [''z'']) = Inr False"
  using
    CanSeeAnyChannels_concrete [of "\<lparr>Name = ''u'', PasswordHash = (None :: unit option),
      Channels = Some [''*''], Password = None\<rparr>" "Some [''z'']"]
    CanSeeAnyChannels_concrete [of "\<lparr>Name = ''u'', PasswordHash = (None :: unit option),
      Channels = Some [''*''], Password = None\<rparr>" None]
    CanSeeAnyChannels_concrete [of "\<lparr>Name = ''u'', PasswordHash = (None :: unit option),
      Channels = Some [''a''], Password = None\<rparr>" None]
    CanSeeAnyChannels_concrete [of "\<lparr>Name = ''u'', PasswordHash = (None :: unit option),
      Channels = Some [''a''], Password = None\<rparr>" "Some [''z'']"]
  by (simp add: range_items_def CanSeeChannel_def stringListContains_def)

text \<open>
  Claim C10. For a nil user and every non-empty channel list, CanSeeAnyChannels returns
  true from inside the loop (CanSeeChannel grants the first channel to a nil user), so
  the wildcard fallback that reads the user's channels is not reached; whenever the user
  is concrete or the channel list is non-empty, the call does not dereference a nil user.
  The third part records that the precondition is needed: with a nil user and a nil or
  empty list the call panics.
\<close>

theorem CanSeeAnyChannels_nil_user:
  "(range_items channels \<noteq> [] \<longrightarrow>
      CanSeeAnyChannels (None :: 'h User option) channels = Inr True) \<and>
   ((user :: 'h User option) \<noteq> None \<or> range_items channels \<noteq> [] \<longrightarrow>
      CanSeeAnyChannels user channels \<noteq> Inl NilPointerDereference) \<and>
   (range_items channels = [] \<longrightarrow>
      CanSeeAnyChannels (None :: 'h User option) channels = Inl NilPointerDereference)"
  by (cases user)
     (auto simp add: CanSeeAnyChannels_def CanSeeAnyChannels_loop_nil_user range_items_def
      split: option.split)

theorem CanSeeAnyChannels_nil_user_witness:
  "range_items (Some [''secret'', ''other'']) \<noteq> []
   \<and> CanSeeAnyChannels (None :: unit User option) (Some [''secret'', ''other'']) = Inr True
   \<and> CanSeeAnyChannels (None :: unit User option) (Some [''secret'', ''other''])
       \<noteq> Inl NilPointerDereference
   \<and> range_items (Some ([] :: string list)) = []
   \<and> CanSeeAnyChannels (None :: unit User option) (Some []) = Inl NilPointerDereference"
  using
    CanSeeAnyChannels_nil_user [of "Some [''secret'', ''other'']" "None :: unit User option"]
    CanSeeAnyChannels_nil_user [of "Some []" "None :: unit User option"]
  by (simp add: range_items_def)

section \<open>Authorization against a document's channel map\<close>

text \<open>
  Claim C3. AuthorizeAnyDocChannels succeeds for a nil user. For a concrete user it
  succeeds exactly when some entry of the user's channels is "*" or is a key of the
  document's channel map with a nil marker (current membership); the scan is in stored
  order and stops at the first such entry. Otherwise it fails with the generic
  authorization error (login required for the anonymous user, else forbidden). In
  particular a user with a nil or empty channel list always fails.
\<close>

theorem AuthorizeAnyDocChannels_spec:
  "AuthorizeAnyDocChannels (None :: 'h User option) m = Inr None \<and>
   AuthorizeAnyDocChannels (Some (u :: 'h User)) m =
     (if \<exists>c \<in> set (range_items (Channels u)). c = ''*'' \<or> m c = Some None then Inr None
      else Inr (Some (if Name u = ''''
                      then HTTPError StatusUnauthorized (Literal ''login required'')
                      else HTTPError StatusForbidden
                             (Literal ''You are not allowed to see this'')))) \<and>
   (range_items (Channels u) = [] \<longrightarrow> AuthorizeAnyDocChannels (Some u) m \<noteq> Inr None)"
  by (auto simp add: AuthorizeAnyDocChannels_def AuthorizeAnyDocChannels_loop_ex
      unauthError_def range_items_def split: option.split)

text \<open>
  The spec's example: the document is currently in "x" and was removed from "y". A user
  holding "x" is admitted, a user holding "y" is refused, and so is a user with an empty
  channel list.
\<close>

theorem AuthorizeAnyDocChannels_spec_witness:
  "AuthorizeAnyDocChannels
     (Some \<lparr>Name = ''u'', PasswordHash = (None :: unit option),
            Channels = Some [''x''], Password = None\<rparr>)
     [''x'' \<mapsto> None, ''y'' \<mapsto> Some ()] = Inr None
   \<and> AuthorizeAnyDocChannels
     (Some \<lparr>Name = ''u'', PasswordHash = (None :: unit option),
            Channels = Some [''y''], Password = None\<rparr>)
     [''x'' \<mapsto> None, ''y'' \<mapsto> Some ()] =
       Inr (Some (HTTPError StatusForbidden (Literal ''You are not allowed to see this'')))
   \<and> range_items (Channels \<lparr>Name = ''u'', PasswordHash = (None :: unit option),
            Channels = Some [], Password = None\<rparr>) = []
   \<and> AuthorizeAnyDocChannels
     (Some \<lparr>Name = ''u'', PasswordHash = (None :: unit option),
            Channels = Some [], Password = None\<rparr>)
     [''x'' \<mapsto> None, ''y'' \<mapsto> Some ()] \<noteq> Inr None"
  using
    AuthorizeAnyDocChannels_spec [of "[''x'' \<mapsto> None, ''y'' \<mapsto> Some ()]"
      "\<lparr>Name = ''u'', PasswordHash = (None :: unit option),
        Channels = Some [''x''], Password = None\<rparr>"]
    AuthorizeAnyDocChannels_spec [of "[''x'' \<mapsto> None, ''y'' \<mapsto> Some ()]"
      "\<lparr>Name = ''u'', PasswordHash = (None :: unit option),
        Channels = Some [''y''], Password = None\<rparr>"]
    AuthorizeAnyDocChannels_spec [of "[''x'' \<mapsto> None, ''y'' \<mapsto> Some ()]"
      "\<lparr>Name = ''u'', PasswordHash = (None :: unit option),
        Channels = Some [], Password = None\<rparr>"]
  by (simp add: range_items_def)

section \<open>Validation\<close>

lemma isWordChar_spec: "isWordChar c = (isLetter c \<or> isDigit c \<or> c = CHR ''_'')"
  by (cases c) (simp add: isWordChar_def isLetter_def isDigit_def)

lemma matchWordStar_all: "matchWordStar s = (\<forall>c \<in> set s. isWordChar c)"
  by (induction s) auto

lemma matchWordStar_namePattern: "matchWordStar s = namePattern s"
  by (cases s) (auto simp add: matchWordStar_all namePattern_def isWordChar_spec)

text \<open>
  Claim C6. Validate fails, with an error of the bad-request class, exactly when the
  name does not match the pattern "empty string, or one-or-more word characters", or
  exactly one of (name is empty) and (credential is absent) holds; it succeeds exactly
  when the name matches and either the user is anonymous without a credential or named
  with one.
\<close>

theorem Validate_iff:
  "((\<exists>m. Validate u = Some (HTTPError StatusBadRequest m)) =
      (\<not> namePattern (Name u) \<or> ((Name u = '''') \<noteq> (PasswordHash u = None)))) \<and>
   ((Validate u = None) =
      (namePattern (Name u) \<and> ((Name u = '''') = (PasswordHash u = None))))"
  by (auto simp add: Validate_def matchWordStar_namePattern)

text \<open>
  The spec's examples: "bob_2" with a credential validates and "bad name" does not; the
  anonymous user validates without a credential, and a named user without one does not.
\<close>

theorem Validate_iff_witness:
  "Validate \<lparr>Name = ''bob_2'', PasswordHash = Some ''h'', Channels = None, Password = None\<rparr>
     = None
   \<and> Validate \<lparr>Name = ''bad name'', PasswordHash = Some ''h'', Channels = None,
        Password = None\<rparr> \<noteq> None
   \<and> Validate \<lparr>Name = '''', PasswordHash = (None :: string option), Channels = None,
        Password = None\<rparr> = None
   \<and> Validate \<lparr>Name = ''bob'', PasswordHash = (None :: string option), Channels = None,
        Password = None\<rparr> \<noteq> None"
  using
    Validate_iff [of "\<lparr>Name = ''bob_2'', PasswordHash = Some ''h'', Channels = None,
      Password = None\<rparr>"]
    Validate_iff [of "\<lparr>Name = ''bad name'', PasswordHash = Some ''h'', Channels = None,
      Password = None\<rparr>"]
    Validate_iff [of "\<lparr>Name = '''', PasswordHash = (None :: string option), Channels = None,
      Password = None\<rparr>"]
    Validate_iff [of "\<lparr>Name = ''bob'', PasswordHash = (None :: string option),
      Channels = None, Password = None\<rparr>"]
  by (simp add: namePattern_def isLetter_def isDigit_def)

section \<open>All-of authorization and the choice of error\<close>

lemma AuthorizeAllChannels_loop_filter:
  "AuthorizeAllChannels_loop user cs acc =
     (if filter (\<lambda>c. \<not> CanSeeChannel user c) cs = [] then acc
      else Some (range_items acc @ filter (\<lambda>c. \<not> CanSeeChannel user c) cs))"
  by (induction cs arbitrary: acc) (auto simp add: range_items_def split: option.split)

lemma AuthorizeAllChannels_loop_start:
  "AuthorizeAllChannels_loop user (range_items channels) None =
     (if forbiddenChannels user channels = [] then None
      else Some (forbiddenChannels user channels))"
  by (simp add: AuthorizeAllChannels_loop_filter forbiddenChannels_def range_items_def)

lemma forbiddenChannels_nil_user: "forbiddenChannels None channels = []"
  by (simp add: forbiddenChannels_def CanSeeChannel_def)

text \<open>
  Claim C7, as amended. AuthorizeAllChannels fails exactly when the subset of the
  requested channels that CanSeeChannel refuses is non-empty. For a named user the error
  is of the forbidden class and names exactly those channels, in request order; for the
  anonymous user (empty name) it is the login-required error of the unauthorized class,
  which names no channel. The same choice by identity is made when AuthorizeAnyChannels
  or AuthorizeAnyDocChannels fails. A nil user is never refused.
\<close>

theorem AuthorizeAllChannels_spec:
  "AuthorizeAllChannels (None :: 'h User option) channels = Inr None \<and>
   AuthorizeAllChannels (Some (u :: 'h User)) channels =
     (if forbiddenChannels (Some u) channels = [] then Inr None
      else Inr (Some (if Name u = ''''
                      then HTTPError StatusUnauthorized (Literal ''login required'')
                      else HTTPError StatusForbidden
                             (Sprintf ''You are not allowed to see channels %v''
                                (Values (forbiddenChannels (Some u) channels)))))) \<and>
   (Name u \<noteq> '''' \<longrightarrow>
      (\<forall>e. AuthorizeAllChannels (Some u) channels = Inr (Some e) \<longrightarrow>
         errorNames e (forbiddenChannels (Some u) channels))) \<and>
   AuthorizeAnyChannels (Some u) channels =
     (if CanSeeAnyChannels (Some u) channels = Inr True then Inr None
      else Inr (Some (if Name u = ''''
                      then HTTPError StatusUnauthorized (Literal ''login required'')
                      else HTTPError StatusForbidden
                             (Literal ''You are not allowed to see this'')))) \<and>
   (Name u = '''' \<longrightarrow>
      (\<forall>e cs. AuthorizeAllChannels (Some u) channels = Inr (Some e) \<longrightarrow>
         \<not> errorNames e cs)) \<and>
   (AuthorizeAnyDocChannels (Some u) (m :: 'r ChannelMap) = Inr None \<or>
    AuthorizeAnyDocChannels (Some u) m =
      Inr (Some (if Name u = ''''
                 then HTTPError StatusUnauthorized (Literal ''login required'')
                 else HTTPError StatusForbidden
                        (Literal ''You are not allowed to see this''))))"
proof -
  have nil: "AuthorizeAllChannels (None :: 'h User option) channels = Inr None"
    by (simp add: AuthorizeAllChannels_def AuthorizeAllChannels_loop_start
        forbiddenChannels_nil_user)
  have all: "AuthorizeAllChannels (Some u) channels =
     (if forbiddenChannels (Some u) channels = [] then Inr None
      else Inr (Some (if Name u = ''''
                      then HTTPError StatusUnauthorized (Literal ''login required'')
                      else HTTPError StatusForbidden
                             (Sprintf ''You are not allowed to see channels %v''
                                (Values (forbiddenChannels (Some u) channels))))))"
    by (simp add: AuthorizeAllChannels_def AuthorizeAllChannels_loop_start unauthError_def)
  have names: "Name u \<noteq> '''' \<longrightarrow>
      (\<forall>e. AuthorizeAllChannels (Some u) channels = Inr (Some e) \<longrightarrow>
         errorNames e (forbiddenChannels (Some u) channels))"
    by (auto simp add: all errorNames_def split: if_splits)
  have any: "AuthorizeAnyChannels (Some u) channels =
     (if CanSeeAnyChannels (Some u) channels = Inr True then Inr None
      else Inr (Some (if Name u = ''''
                      then HTTPError StatusUnauthorized (Literal ''login required'')
                      else HTTPError StatusForbidden
                             (Literal ''You are not allowed to see this''))))"
    by (auto simp add: AuthorizeAnyChannels_def CanSeeAnyChannels_def unauthError_def
        split: option.splits)
  have anon: "Name u = '''' \<longrightarrow>
      (\<forall>e cs. AuthorizeAllChannels (Some u) channels = Inr (Some e) \<longrightarrow>
         \<not> errorNames e cs)"
    by (auto simp add: all errorNames_def split: if_splits)
  have doc: "AuthorizeAnyDocChannels (Some u) m = Inr None \<or>
    AuthorizeAnyDocChannels (Some u) m =
      Inr (Some (if Name u = ''''
                 then HTTPError StatusUnauthorized (Literal ''login required'')
                 else HTTPError StatusForbidden
                        (Literal ''You are not allowed to see this'')))"
    by (simp add: AuthorizeAnyDocChannels_def unauthError_def)
  from nil all names any anon doc show ?thesis by blast
qed

text \<open>
  The spec's example: a user named "bob" holding "a" asks for "a", "b" and "c" and is
  refused with the forbidden error naming "b" and "c". The anonymous user holding "c"
  who asks for "d" is refused with the login-required error, which does not name "d".
\<close>

theorem AuthorizeAllChannels_spec_witness:
  "Name \<lparr>Name = ''bob'', PasswordHash = Some ''h'', Channels = Some [''a''],
         Password = None\<rparr> \<noteq> ''''
   \<and> AuthorizeAllChannels
        (Some \<lparr>Name = ''bob'', PasswordHash = Some ''h'', Channels = Some [''a''],
               Password = None\<rparr>) (Some [''a'', ''b'', ''c'']) =
       Inr (Some (HTTPError StatusForbidden
                    (Sprintf ''You are not allowed to see channels %v''
                       (Values [''b'', ''c'']))))
   \<and> errorNames
        (HTTPError StatusForbidden
           (Sprintf ''You are not allowed to see channels %v'' (Values [''b'', ''c''])))
        (forbiddenChannels
           (Some \<lparr>Name = ''bob'', PasswordHash = Some ''h'', Channels = Some [''a''],
                  Password = None\<rparr>) (Some [''a'', ''b'', ''c'']))
   \<and> Name \<lparr>Name = '''', PasswordHash = (None :: string option), Channels = Some [''c''],
          Password = None\<rparr> = ''''
   \<and> AuthorizeAllChannels
        (Some \<lparr>Name = '''', PasswordHash = (None :: string option), Channels = Some [''c''],
               Password = None\<rparr>) (Some [''d'']) =
       Inr (Some (HTTPError StatusUnauthorized (Literal ''login required'')))
   \<and> \<not> errorNames (HTTPError StatusUnauthorized (Literal ''login required'')) [''d'']"
proof -
  have named: "Name \<lparr>Name = ''bob'', PasswordHash = Some ''h'', Channels = Some [''a''],
         Password = None\<rparr> \<noteq> ''''"
    by simp
  have fb: "forbiddenChannels
           (Some \<lparr>Name = ''bob'', PasswordHash = Some ''h'', Channels = Some [''a''],
                  Password = None\<rparr>) (Some [''a'', ''b'', ''c'']) = [''b'', ''c'']"
    by (simp add: forbiddenChannels_def range_items_def CanSeeChannel_def
        stringListContains_def)
  have anon: "Name \<lparr>Name = '''', PasswordHash = (None :: string option),
         Channels = Some [''c''], Password = None\<rparr> = ''''"
    by simp
  have fa: "forbiddenChannels
           (Some \<lparr>Name = '''', PasswordHash = (None :: string option),
                  Channels = Some [''c''], Password = None\<rparr>) (Some [''d'']) = [''d'']"
    by (simp add: forbiddenChannels_def range_items_def CanSeeChannel_def
        stringListContains_def)
  from AuthorizeAllChannels_spec [of "Some [''a'', ''b'', ''c'']"
      "\<lparr>Name = ''bob'', PasswordHash = Some ''h'', Channels = Some [''a''],
        Password = None\<rparr>" "Map.empty :: unit ChannelMap"] named fb
  have 1: "AuthorizeAllChannels
        (Some \<lparr>Name = ''bob'', PasswordHash = Some ''h'', Channels = Some [''a''],
               Password = None\<rparr>) (Some [''a'', ''b'', ''c'']) =
       Inr (Some (HTTPError StatusForbidden
                    (Sprintf ''You are not allowed to see channels %v''
                       (Values [''b'', ''c'']))))"
    and 2: "errorNames
        (HTTPError StatusForbidden
           (Sprintf ''You are not allowed to see channels %v'' (Values [''b'', ''c''])))
        [''b'', ''c'']"
    by simp_all
  from AuthorizeAllChannels_spec [of "Some [''d'']"
      "\<lparr>Name = '''', PasswordHash = (None :: string option), Channels = Some [''c''],
        Password = None\<rparr>" "Map.empty :: unit ChannelMap"] anon fa
  have 3: "AuthorizeAllChannels
        (Some \<lparr>Name = '''', PasswordHash = (None :: string option), Channels = Some [''c''],
               Password = None\<rparr>) (Some [''d'']) =
       Inr (Some (HTTPError StatusUnauthorized (Literal ''login required'')))"
    and 4: "\<not> errorNames (HTTPError StatusUnauthorized (Literal ''login required'')) [''d'']"
    by simp_all
  from named fb 1 2 anon 3 4 show ?thesis by simp
qed

text \<open>
  Claim C7 as it is written does not hold for the anonymous user: a saved guest record
  holding "a" that asks for "a" and "b" is refused, "b" being the forbidden subset, but
  the error is login-required and names no channel.
\<close>

theorem AuthorizeAllChannels_anonymous_counterexample:
  "forbiddenChannels
     (Some \<lparr>Name = '''', PasswordHash = (None :: string option), Channels = Some [''a''],
            Password = None\<rparr>) (Some [''a'', ''b'']) = [''b'']
   \<and> AuthorizeAllChannels
        (Some \<lparr>Name = '''', PasswordHash = (None :: string option), Channels = Some [''a''],
               Password = None\<rparr>) (Some [''a'', ''b'']) =
       Inr (Some (HTTPError StatusUnauthorized (Literal ''login required'')))
   \<and> \<not> errorNames (HTTPError StatusUnauthorized (Literal ''login required'')) [''b'']"
  by (simp add: AuthorizeAllChannels_def unauthError_def forbiddenChannels_def
      range_items_def CanSeeChannel_def stringListContains_def errorNames_def)

section \<open>Construction and password check\<close>

lemma testHash_guarantee:
  "\<forall>p q. EqualToPassword testHash (New testHash p) q = (q = p)"
  by (auto simp add: testHash_def)

lemma NewUser_succeeds_iff:
  "(\<exists>u. NewUser ph n p cs = (Some u, None)) =
     (matchWordStar n \<and> ((n = '''') = (p = '''')))"
  by (auto simp add: NewUser_def Validate_def SetPassword_def Let_def split: option.splits)

text \<open>
  Claim C9, as amended. Let verification of a credential made from p accept exactly p.
  For every user name n that matches the name pattern and every password p such that n
  is empty exactly when p is empty, NewUser succeeds, Authenticate of the result with p
  is true, and Authenticate of the result with p followed by "x" is false.
\<close>

theorem NewUser_Authenticate:
  assumes "\<forall>p q. EqualToPassword ph (New ph p) q = (q = p)"
    and "matchWordStar n"
    and "(n = '''') = (p = '''')"
  shows "\<exists>u. NewUser ph n p cs = (Some u, None) \<and> Name u = n \<and> Channels u = cs \<and>
           Authenticate ph u p \<and> \<not> Authenticate ph u (p @ ''x'')"
  using assms
  by (auto simp add: NewUser_def Validate_def SetPassword_def Authenticate_def Let_def)

theorem NewUser_Authenticate_witness:
  "(\<forall>p q. EqualToPassword testHash (New testHash p) q = (q = p))
   \<and> matchWordStar ''bob_2''
   \<and> ((''bob_2'' = '''') = (''secret'' = ''''))
   \<and> (\<exists>u. NewUser testHash ''bob_2'' ''secret'' (Some [''a'']) = (Some u, None) \<and>
          Name u = ''bob_2'' \<and> Channels u = Some [''a''] \<and>
          Authenticate testHash u ''secret'' \<and>
          \<not> Authenticate testHash u (''secret'' @ ''x''))"
proof -
  have g: "\<forall>p q. EqualToPassword testHash (New testHash p) q = (q = p)"
    by (rule testHash_guarantee)
  have m: "matchWordStar ''bob_2''"
    by (simp add: isWordChar_def)
  have e: "(''bob_2'' = '''') = (''secret'' = '''')"
    by simp
  from NewUser_Authenticate [OF g m e, of "Some [''a'']"] g m e show ?thesis
    by blast
qed

text \<open>
  Claim C9 as it is written does not hold for every password: the name "bob" matches the
  pattern, yet NewUser with the empty password is refused by Validate, and so is the
  empty name with a non-empty password.
\<close>

theorem NewUser_empty_password_counterexample:
  "matchWordStar ''bob''
   \<and> NewUser testHash ''bob'' '''' None =
       (None, Some (HTTPError StatusBadRequest (Literal ''Invalid password'')))
   \<and> matchWordStar ''''
   \<and> NewUser testHash '''' ''secret'' None =
       (None, Some (HTTPError StatusBadRequest (Literal ''Invalid password'')))"
  by (simp add: NewUser_def Validate_def SetPassword_def isWordChar_def testHash_def)

section \<open>The identity store\<close>

lemma GetUser_cases:
  "GetUser auth name =
     (case fault (bucket auth) of
        Some msg \<Rightarrow>
          if name = '''' then (Some guestUser, None) else (None, Some (StoreError msg))
      | None \<Rightarrow>
          (case docs (bucket auth) (''user:'' @ name) of
             Some u \<Rightarrow> (Some u, None)
           | None \<Rightarrow>
               if name = '''' then (Some guestUser, None) else (None, Some NotFoundError)))"
  by (simp add: GetUser_def Bucket_Get_def docIDForUser_def guestUser_def
      split: option.split)

lemma GetUser_error_no_user: "GetUser auth name = (user, Some e) \<Longrightarrow> user = None"
  by (auto simp add: GetUser_cases split: option.splits if_splits)

lemma GetUser_total:
  "snd (GetUser auth name) \<noteq> None \<or> (\<exists>u. GetUser auth name = (Some u, None))"
  by (auto simp add: GetUser_cases split: option.splits)

text \<open>
  Claim C2, as amended. GetUser reads the record at the key "user:" followed by the name
  and never writes the store (the model returns no store). A record that is found is
  returned. When the lookup leaves no record and the name is empty, whether the store
  reported not-found or a store-level error, the guest user with channels {"*"} and no
  credential is returned with no error. For a non-empty name, not-found is returned to
  the caller, and a store-level error is returned unchanged.
\<close>

theorem GetUser_spec:
  "GetUser auth name =
     (case fault (bucket auth) of
        Some msg \<Rightarrow>
          if name = '''' then (Some guestUser, None) else (None, Some (StoreError msg))
      | None \<Rightarrow>
          (case docs (bucket auth) (''user:'' @ name) of
             Some u \<Rightarrow> (Some u, None)
           | None \<Rightarrow>
               if name = '''' then (Some guestUser, None) else (None, Some NotFoundError)))"
  by (rule GetUser_cases)

text \<open>
  The spec's example of guest defaulting: on an empty store the empty name gives the
  guest user; once a record for the empty name holding "chan1" is stored, that record is
  returned. An unknown name is not found, and a failing store reports its error for a
  non-empty name.
\<close>

theorem GetUser_spec_witness:
  "GetUser \<lparr>bucket = \<lparr>docs = Map.empty, fault = None\<rparr>\<rparr> '''' =
     (Some \<lparr>Name = '''', PasswordHash = (None :: string option), Channels = Some [''*''],
            Password = None\<rparr>, None)
   \<and> GetUser
       \<lparr>bucket = \<lparr>docs = [''user:'' \<mapsto> \<lparr>Name = '''', PasswordHash = (None :: string option),
                   Channels = Some [''chan1''], Password = None\<rparr>], fault = None\<rparr>\<rparr> '''' =
     (Some \<lparr>Name = '''', PasswordHash = None, Channels = Some [''chan1''], Password = None\<rparr>,
      None)
   \<and> GetUser \<lparr>bucket = \<lparr>docs = (Map.empty :: string \<rightharpoonup> string User), fault = None\<rparr>\<rparr>
       ''bob'' = (None, Some NotFoundError)
   \<and> GetUser
       \<lparr>bucket = \<lparr>docs = (Map.empty :: string \<rightharpoonup> string User), fault = Some ''timeout''\<rparr>\<rparr>
       ''bob'' = (None, Some (StoreError ''timeout''))"
  using
    GetUser_spec [of "\<lparr>bucket = \<lparr>docs = (Map.empty :: string \<rightharpoonup> string User),
      fault = None\<rparr>\<rparr>" "''''"]
    GetUser_spec [of "\<lparr>bucket = \<lparr>docs = [''user:'' \<mapsto> \<lparr>Name = '''',
      PasswordHash = (None :: string option), Channels = Some [''chan1''],
      Password = None\<rparr>], fault = None\<rparr>\<rparr>" "''''"]
    GetUser_spec [of "\<lparr>bucket = \<lparr>docs = (Map.empty :: string \<rightharpoonup> string User),
      fault = None\<rparr>\<rparr>" "''bob''"]
    GetUser_spec [of "\<lparr>bucket = \<lparr>docs = (Map.empty :: string \<rightharpoonup> string User),
      fault = Some ''timeout''\<rparr>\<rparr>" "''bob''"]
  by (simp add: guestUser_def)

text \<open>
  Claim C2 as it is written does not hold for the empty name: when the store fails with
  a store-level error, the lookup for "" reports that error, yet GetUser returns the
  guest user and no error.
\<close>

theorem GetUser_store_error_counterexample:
  "Bucket_Get \<lparr>docs = (Map.empty :: string \<rightharpoonup> string User), fault = Some ''timeout''\<rparr>
     (docIDForUser '''') = (None, Some (StoreError ''timeout''))
   \<and> GetUser
       \<lparr>bucket = \<lparr>docs = (Map.empty :: string \<rightharpoonup> string User), fault = Some ''timeout''\<rparr>\<rparr>
       '''' =
     (Some \<lparr>Name = '''', PasswordHash = None, Channels = Some [''*''], Password = None\<rparr>,
      None)
   \<and> snd (GetUser
       \<lparr>bucket = \<lparr>docs = (Map.empty :: string \<rightharpoonup> string User), fault = Some ''timeout''\<rparr>\<rparr>
       '''') \<noteq> Some (StoreError ''timeout'')"
  by (simp add: GetUser_def Bucket_Get_def docIDForUser_def)

text \<open>
  Claim C8. AuthenticateUser returns nil whenever the GetUser lookup produces an error
  (unknown user or store failure) and whenever Authenticate of the fetched user is
  false; otherwise it returns the fetched user. The result is either nil or the fetched
  user, with no error value; every lookup either produces an error or a user.
\<close>

theorem AuthenticateUser_spec:
  "(snd (GetUser auth name) \<noteq> None \<longrightarrow> AuthenticateUser ph auth name pw = None) \<and>
   (\<forall>u. GetUser auth name = (Some u, None) \<longrightarrow>
      AuthenticateUser ph auth name pw = (if Authenticate ph u pw then Some u else None)) \<and>
   (snd (GetUser auth name) \<noteq> None \<or> (\<exists>u. GetUser auth name = (Some u, None)))"
proof -
  have err: "snd (GetUser auth name) \<noteq> None \<longrightarrow> AuthenticateUser ph auth name pw = None"
  proof
    assume "snd (GetUser auth name) \<noteq> None"
    then obtain user e where "GetUser auth name = (user, Some e)"
      by (cases "GetUser auth name") auto
    then have "GetUser auth name = (None, Some e)"
      using GetUser_error_no_user by blast
    then show "AuthenticateUser ph auth name pw = None"
      by (simp add: AuthenticateUser_def)
  qed
  have ok: "\<forall>u. GetUser auth name = (Some u, None) \<longrightarrow>
      AuthenticateUser ph auth name pw = (if Authenticate ph u pw then Some u else None)"
    by (simp add: AuthenticateUser_def)
  from err ok GetUser_total [of auth name] show ?thesis by blast
qed

text \<open>
  The three negative causes and the positive case: an unknown user, a failing store and
  a wrong password all give nil; the right password gives the stored user.
\<close>

theorem AuthenticateUser_spec_witness:
  "snd (GetUser bobStore ''eve'') \<noteq> None
   \<and> AuthenticateUser testHash bobStore ''eve'' ''secret'' = None
   \<and> snd (GetUser failingStore ''bob'') \<noteq> None
   \<and> AuthenticateUser testHash failingStore ''bob'' ''secret'' = None
   \<and> GetUser bobStore ''bob'' = (Some bobUser, None)
   \<and> AuthenticateUser testHash bobStore ''bob'' ''wrong'' = None
   \<and> AuthenticateUser testHash bobStore ''bob'' ''secret'' = Some bobUser"
proof -
  have eve: "GetUser bobStore ''eve'' = (None, Some NotFoundError)"
    by (simp add: GetUser_cases bobStore_def)
  have down: "GetUser failingStore ''bob'' = (None, Some (StoreError ''timeout''))"
    by (simp add: GetUser_cases failingStore_def)
  have bob: "GetUser bobStore ''bob'' = (Some bobUser, None)"
    by (simp add: GetUser_cases bobStore_def)
  have wrong: "\<not> Authenticate testHash bobUser ''wrong''"
    by (simp add: Authenticate_def bobUser_def testHash_def)
  have right: "Authenticate testHash bobUser ''secret''"
    by (simp add: Authenticate_def bobUser_def testHash_def)
  from AuthenticateUser_spec [of bobStore "''eve''" testHash "''secret''"] eve
  have 1: "AuthenticateUser testHash bobStore ''eve'' ''secret'' = None"
    by simp
  from AuthenticateUser_spec [of failingStore "''bob''" testHash "''secret''"] down
  have 2: "AuthenticateUser testHash failingStore ''bob'' ''secret'' = None"
    by simp
  from AuthenticateUser_spec [of bobStore "''bob''" testHash "''wrong''"] bob wrong
  have 3: "AuthenticateUser testHash bobStore ''bob'' ''wrong'' = None"
    by simp
  from AuthenticateUser_spec [of bobStore "''bob''" testHash "''secret''"] bob right
  have 4: "AuthenticateUser testHash bobStore ''bob'' ''secret'' = Some bobUser"
    by simp
  from eve down bob 1 2 3 4 show ?thesis by simp
qed

section \<open>Saving a user\<close>

lemma pending_password_step:
  "(case Password user0 of
      Some p \<Rightarrow> (SetPassword ph user0 p)\<lparr>Password := None\<rparr>
    | None \<Rightarrow> user0) =
   (case Password user0 of
      None \<Rightarrow> user0
    | Some p \<Rightarrow>
        user0\<lparr>PasswordHash := (if p = '''' then None else Some (New ph p)),
              Password := None\<rparr>)"
  by (simp add: SetPassword_def split: option.split)

lemma SaveUser_invalid:
  assumes "Validate user = Some e"
    and "user = (case Password user0 of
                   Some p \<Rightarrow> (SetPassword ph user0 p)\<lparr>Password := None\<rparr>
                 | None \<Rightarrow> user0)"
  shows "SaveUser ph auth user0 = (auth, user, Some e)"
  using assms by (simp add: SaveUser_def Let_def)

lemma SaveUser_valid_fault:
  assumes "Validate user = None"
    and "user = (case Password user0 of
                   Some p \<Rightarrow> (SetPassword ph user0 p)\<lparr>Password := None\<rparr>
                 | None \<Rightarrow> user0)"
    and "fault (bucket auth) = Some msg"
  shows "SaveUser ph auth user0 = (auth, user, Some (StoreError msg))"
  using assms by (simp add: SaveUser_def Let_def Bucket_Set_def)

lemma SaveUser_valid_stored:
  assumes "Validate user = None"
    and "user = (case Password user0 of
                   Some p \<Rightarrow> (SetPassword ph user0 p)\<lparr>Password := None\<rparr>
                 | None \<Rightarrow> user0)"
    and "fault (bucket auth) = None"
  shows "SaveUser ph auth user0 =
           (auth\<lparr>bucket := (bucket auth)
                   \<lparr>docs := (docs (bucket auth))(docIDForUser (Name user) \<mapsto> user)\<rparr>\<rparr>,
            user, None)"
  using assms by (simp add: SaveUser_def Let_def Bucket_Set_def)

lemma GetUser_after_store:
  assumes "fault (bucket auth) = None"
  shows "GetUser (auth\<lparr>bucket := (bucket auth)
                   \<lparr>docs := (docs (bucket auth))(docIDForUser (Name user) \<mapsto> user)\<rparr>\<rparr>)
           (Name user) = (Some user, None)"
  using assms by (simp add: GetUser_cases docIDForUser_def)

text \<open>
  Claim C5. SaveUser first, when the transient Password field is set, hashes it into the
  credential with SetPassword and clears the field; then it validates. The caller's
  record after the call differs from the one passed in by that password step only: the
  name and the channels are unchanged, and a record with no pending password is not
  changed at all. On a validation failure the error of Validate is returned and the
  store is not written. On success the record is written at its key, replacing any
  record there, so that a following GetUser of that name returns it; a store failure is
  returned and leaves the store as it was.
\<close>

theorem SaveUser_spec:
  assumes "SaveUser ph auth user0 = (auth', user', err)"
  shows "user' =
           (case Password user0 of
              None \<Rightarrow> user0
            | Some p \<Rightarrow>
                user0\<lparr>PasswordHash := (if p = '''' then None else Some (New ph p)),
                      Password := None\<rparr>) \<and>
         Name user' = Name user0 \<and> Channels user' = Channels user0 \<and>
         (Validate user' \<noteq> None \<longrightarrow> err = Validate user' \<and> auth' = auth) \<and>
         (Validate user' = None \<longrightarrow>
            (case fault (bucket auth) of
               Some msg \<Rightarrow> err = Some (StoreError msg) \<and> auth' = auth
             | None \<Rightarrow>
                 err = None \<and>
                 auth' = auth\<lparr>bucket := (bucket auth)
                            \<lparr>docs := (docs (bucket auth))(docIDForUser (Name user') \<mapsto> user')\<rparr>\<rparr> \<and>
                 GetUser auth' (Name user') = (Some user', None)))"
proof -
  define user where
    "user = (case Password user0 of
               Some p \<Rightarrow> (SetPassword ph user0 p)\<lparr>Password := None\<rparr>
             | None \<Rightarrow> user0)"
  have step: "user =
           (case Password user0 of
              None \<Rightarrow> user0
            | Some p \<Rightarrow>
                user0\<lparr>PasswordHash := (if p = '''' then None else Some (New ph p)),
                      Password := None\<rparr>)"
    unfolding user_def by (rule pending_password_step)
  have name: "Name user = Name user0"
    by (simp add: step split: option.split)
  have chans: "Channels user = Channels user0"
    by (simp add: step split: option.split)
  have same: "user' = user"
  proof (cases "Validate user")
    case (Some e)
    from SaveUser_invalid [OF Some user_def] assms show ?thesis by simp
  next
    case None
    show ?thesis
    proof (cases "fault (bucket auth)")
      case (Some msg)
      from SaveUser_valid_fault [OF None user_def Some] assms show ?thesis by simp
    next
      case none: None
      from SaveUser_valid_stored [OF None user_def none] assms show ?thesis by simp
    qed
  qed
  have invalid: "Validate user \<noteq> None \<longrightarrow> err = Validate user \<and> auth' = auth"
  proof
    assume "Validate user \<noteq> None"
    then obtain e where e: "Validate user = Some e" by auto
    from SaveUser_invalid [OF e user_def] assms e
    show "err = Validate user \<and> auth' = auth" by simp
  qed
  have valid: "Validate user = None \<longrightarrow>
            (case fault (bucket auth) of
               Some msg \<Rightarrow> err = Some (StoreError msg) \<and> auth' = auth
             | None \<Rightarrow>
                 err = None \<and>
                 auth' = auth\<lparr>bucket := (bucket auth)
                            \<lparr>docs := (docs (bucket auth))(docIDForUser (Name user) \<mapsto> user)\<rparr>\<rparr> \<and>
                 GetUser auth' (Name user) = (Some user, None))"
  proof
    assume v: "Validate user = None"
    show "case fault (bucket auth) of
               Some msg \<Rightarrow> err = Some (StoreError msg) \<and> auth' = auth
             | None \<Rightarrow>
                 err = None \<and>
                 auth' = auth\<lparr>bucket := (bucket auth)
                            \<lparr>docs := (docs (bucket auth))(docIDForUser (Name user) \<mapsto> user)\<rparr>\<rparr> \<and>
                 GetUser auth' (Name user) = (Some user, None)"
    proof (cases "fault (bucket auth)")
      case (Some msg)
      from SaveUser_valid_fault [OF v user_def Some] assms Some show ?thesis by simp
    next
      case None
      from SaveUser_valid_stored [OF v user_def None] assms
      have a: "auth' = auth\<lparr>bucket := (bucket auth)
                  \<lparr>docs := (docs (bucket auth))(docIDForUser (Name user) \<mapsto> user)\<rparr>\<rparr>"
        and e: "err = None"
        by simp_all
      from GetUser_after_store [OF None, of user] a
      have "GetUser auth' (Name user) = (Some user, None)" by simp
      with a e None show ?thesis by simp
    qed
  qed
  from step name chans invalid valid show ?thesis
    unfolding same by blast
qed

text \<open>
  The spec's example: saving a record for the empty name that holds "chan1" into an
  empty store succeeds, and the following GetUser of "" returns that record, not the
  guest default. Saving a record whose name has a space and whose pending password is
  "pw" fails validation: the store is unchanged, and the caller's record keeps its name
  and channels, with the pending password hashed into the credential and cleared.
\<close>

theorem SaveUser_spec_witness:
  "Validate chan1Guest = None
   \<and> snd (snd (SaveUser testHash emptyStore chan1Guest)) = None
   \<and> GetUser (fst (SaveUser testHash emptyStore chan1Guest)) '''' = (Some chan1Guest, None)
   \<and> Validate (badNameUser\<lparr>PasswordHash := Some ''pw'', Password := None\<rparr>) \<noteq> None
   \<and> SaveUser testHash emptyStore badNameUser =
       (emptyStore, badNameUser\<lparr>PasswordHash := Some ''pw'', Password := None\<rparr>,
        Some (HTTPError StatusBadRequest
                (Sprintf ''Invalid username %q'' (Quoted ''bad name''))))"
proof -
  obtain a1 u1 e1 where s1: "SaveUser testHash emptyStore chan1Guest = (a1, u1, e1)"
    by (cases "SaveUser testHash emptyStore chan1Guest") auto
  have v1: "Validate chan1Guest = None"
    by (simp add: Validate_def chan1Guest_def)
  have f: "fault (bucket emptyStore) = None"
    by (simp add: emptyStore_def)
  from SaveUser_spec [OF s1] have u1: "u1 = chan1Guest"
    by (simp add: chan1Guest_def)
  from SaveUser_spec [OF s1] v1 f u1
  have r1: "e1 = None \<and> GetUser a1 (Name chan1Guest) = (Some chan1Guest, None)"
    by auto
  have n1: "Name chan1Guest = ''''"
    by (simp add: chan1Guest_def)
  obtain a2 u2 e2 where s2: "SaveUser testHash emptyStore badNameUser = (a2, u2, e2)"
    by (cases "SaveUser testHash emptyStore badNameUser") auto
  from SaveUser_spec [OF s2]
  have u2: "u2 = badNameUser\<lparr>PasswordHash := Some ''pw'', Password := None\<rparr>"
    by (simp add: badNameUser_def testHash_def)
  have v2: "Validate (badNameUser\<lparr>PasswordHash := Some ''pw'', Password := None\<rparr>) =
      Some (HTTPError StatusBadRequest (Sprintf ''Invalid username %q'' (Quoted ''bad name'')))"
    by (simp add: Validate_def badNameUser_def isWordChar_def)
  from SaveUser_spec [OF s2] u2 v2
  have r2: "e2 = Some (HTTPError StatusBadRequest
                (Sprintf ''Invalid username %q'' (Quoted ''bad name''))) \<and> a2 = emptyStore"
    by simp
  from s1 r1 n1 v1 s2 u2 v2 r2 show ?thesis by simp
qed

end
